theory Spec2Isabelle
  imports Main
begin

section \<open>Entities\<close>

text \<open>
  The entity classes \<open>User\<close>, \<open>Settings\<close> and \<open>VerificationOtp\<close> are imported by
  \<open>user.service.ts\<close> and \<open>settings.service.ts\<close>; the records below hold the fields
  those two services read and write. A field that a JavaScript object may lack
  (\<open>undefined\<close>) or hold as \<open>null\<close> is an \<open>option\<close>.
\<close>

datatype user_status = Offline | Online

record Settings =
  verified :: "bool option"
  notificationsEmail :: "bool option"
  notificationsSms :: "bool option"
  securityTwoFactorAuth :: "bool option"
  language :: "string option"

text \<open>
  A reset token is the string that \<open>jwtService.signAsync\<close> returns. It is modelled
  symbolically: a signed token is determined by its payload (the email of the
  \<open>SendPasswordResetEmailDto\<close>), the issue and expiry instants in seconds, and the secret it
  was signed with, so two tokens are the same string exactly when these agree. Any other
  string is \<open>Malformed\<close> and carries its characters.
\<close>

datatype token =
  Jwt (jwt_email: string) (jwt_iat: nat) (jwt_exp: nat) (jwt_secret: string)
  | Malformed string

record User =
  user_id :: string
  email :: string
  phone :: string
  firstName :: string
  password :: string
  status :: user_status
  resetPasswordToken :: "token option"
  settings :: "Settings option"

record VerificationOtp =
  otp_id :: nat
  userId :: string
  otp :: string
  expires_at :: nat

section \<open>The repositories\<close>

text \<open>
  The two TypeORM repositories are tables: lists of rows. \<open>findOne\<close> returns the first
  row that matches. \<open>update(id, partial)\<close> changes, in every row with the given id, what
  \<open>partial\<close> lists and leaves the rest of the row. \<open>save\<close> of a loaded entity writes the
  entity back over the row with its id, and \<open>delete\<close> removes the rows with the given id.
  The calls themselves always return: a database that fails is outside this model.
\<close>

record store =
  users :: "User list"
  otps :: "VerificationOtp list"

definition findOne_email :: "store \<Rightarrow> string \<Rightarrow> User option" where
  "findOne_email s e = find (\<lambda>u. email u = e) (users s)"

definition findOne_id :: "store \<Rightarrow> string \<Rightarrow> User option" where
  "findOne_id s i = find (\<lambda>u. user_id u = i) (users s)"

definition update_user :: "store \<Rightarrow> string \<Rightarrow> (User \<Rightarrow> User) \<Rightarrow> store" where
  "update_user s i f = s\<lparr>users := map (\<lambda>u. if user_id u = i then f u else u) (users s)\<rparr>"

definition save_user :: "store \<Rightarrow> User \<Rightarrow> store" where
  "save_user s u =
     (case find (\<lambda>v. user_id v = user_id u) (users s) of
        Some _ \<Rightarrow> s\<lparr>users := map (\<lambda>v. if user_id v = user_id u then u else v) (users s)\<rparr>
      | None \<Rightarrow> s\<lparr>users := users s @ [u]\<rparr>)"

definition findOne_otp_user :: "store \<Rightarrow> string \<Rightarrow> VerificationOtp option" where
  "findOne_otp_user s i = find (\<lambda>r. userId r = i) (otps s)"

definition findOne_otp_user_code :: "store \<Rightarrow> string \<Rightarrow> string \<Rightarrow> VerificationOtp option" where
  "findOne_otp_user_code s i c = find (\<lambda>r. userId r = i \<and> otp r = c) (otps s)"

definition delete_otp :: "store \<Rightarrow> nat \<Rightarrow> store" where
  "delete_otp s k = s\<lparr>otps := filter (\<lambda>r. otp_id r \<noteq> k) (otps s)\<rparr>"

text \<open>
  Modelled from the spec: the \<open>VerificationOtp\<close> entity is not among the sources. Its
  \<open>saveOtp(userId, code) -> {id, expiresAt}\<close> inserts one row, with a primary key that no
  row has and \<open>expiresAt = now + 5 minutes\<close> (instants are milliseconds, as
  \<open>Date.getTime\<close> gives them).
\<close>

definition fresh_otp_id :: "VerificationOtp list \<Rightarrow> nat" where
  "fresh_otp_id rs = Suc (fold max (map otp_id rs) 0)"

definition otp_ttl :: nat where
  "otp_ttl = 5 * 60 * 1000"

definition save_otp :: "nat \<Rightarrow> store \<Rightarrow> string \<Rightarrow> string \<Rightarrow> VerificationOtp \<times> store" where
  "save_otp t s i c =
     (let r = \<lparr>otp_id = fresh_otp_id (otps s), userId = i, otp = c, expires_at = t + otp_ttl\<rparr>
      in (r, s\<lparr>otps := otps s @ [r]\<rparr>))"

section \<open>The collaborators\<close>

text \<open>
  \<open>mailerService.sendEmail\<close> is awaited and its value is never read, so the service sees
  two outcomes of a call: the promise resolves (whatever it carries), or it rejects with an
  error, which the enclosing \<open>try\<close> catches.
\<close>

datatype mail_outcome = Resolved | Rejected string

text \<open>
  What a request takes from outside: the clock (\<open>new Date()\<close>, in milliseconds), the
  integer \<open>Math.floor(1000 + Math.random() * 9000)\<close> of this request, the outcome of its
  \<open>sendEmail\<close> call, and \<open>bcrypt.hash\<close>.
\<close>

record env =
  now :: nat
  random_otp :: nat
  mail :: mail_outcome
  bcrypt_hash :: "string \<Rightarrow> nat \<Rightarrow> string"

definition secret :: string where
  "secret = ''asaskhawew''"

definition reset_ttl :: nat where
  "reset_ttl = 10 * 60"

text \<open>\<open>signAsync(payload, {secret, expiresIn: '10m'})\<close>: the claims \<open>iat\<close> and \<open>exp\<close> are seconds.\<close>

definition signAsync :: "string \<Rightarrow> string \<Rightarrow> nat \<Rightarrow> token" where
  "signAsync payload_email sec t = Jwt payload_email (t div 1000) (t div 1000 + reset_ttl) sec"

text \<open>
  \<open>jwtService.verify(token, {secret})\<close> throws or returns the decoded payload. A string
  that is no signed token is refused first: the empty string with \<open>jwt must be provided\<close>,
  a string that does not have three parts between dots with \<open>jwt malformed\<close>, and one with
  three parts, which then cannot be decoded, with \<open>invalid token\<close>. A signed token is
  refused when its signature was made with another secret and then when it has expired.
  The payload returned is an object, so that the test \<open>!decoded\<close> of the service never
  holds. \<open>Inl\<close> carries the message of the error thrown, \<open>Inr\<close> the decoded email.
\<close>

definition jwt_verify :: "token \<Rightarrow> string \<Rightarrow> nat \<Rightarrow> string + string" where
  "jwt_verify tok sec t =
     (case tok of
        Malformed raw \<Rightarrow>
          if raw = [] then Inl ''jwt must be provided''
          else if length (filter (\<lambda>c. c = CHR ''.'') raw) \<noteq> 2 then Inl ''jwt malformed''
          else Inl ''invalid token''
      | Jwt e _ ex sg \<Rightarrow>
          if sg \<noteq> sec then Inl ''invalid signature''
          else if ex \<le> t div 1000 then Inl ''jwt expired''
          else Inr e)"

text \<open>\<open>Number.prototype.toString\<close> on a non-negative integer: its decimal digits.\<close>

fun toString :: "nat \<Rightarrow> string" where
  "toString n =
     (if n < 10 then [''0123456789'' ! n]
      else toString (n div 10) @ [''0123456789'' ! (n mod 10)])"

declare toString.simps [simp del]

section \<open>Responses and exceptions\<close>

datatype result_kind = Success | Error

datatype response_data =
  Null
  | OtpIssued string nat
  | Valid bool
  | UserData User
  | StatusData user_status

record RequestResponse =
  result :: result_kind
  message :: string
  data :: response_data

definition respond :: "result_kind \<Rightarrow> string \<Rightarrow> response_data \<Rightarrow> RequestResponse" where
  "respond k m d = \<lparr>result = k, message = m, data = d\<rparr>"

text \<open>\<open>error.message || fallback\<close>: the empty string is falsy.\<close>

definition caught :: "string \<Rightarrow> string \<Rightarrow> RequestResponse" where
  "caught m fallback = respond Error (if m = [] then fallback else m) Null"

datatype exception = HttpException string nat | TypeError string

section \<open>UserService\<close>

text \<open>
  Every method takes the store and returns its response with the store it leaves. A write
  made before an error is caught stays: nothing in the service rolls back.
\<close>

text \<open>\<open>generateOtp(email, resend?)\<close>; an omitted \<open>resend\<close> is falsy.\<close>

definition generateOtp :: "env \<Rightarrow> store \<Rightarrow> string \<Rightarrow> bool \<Rightarrow> RequestResponse \<times> store" where
  "generateOtp ev s e resend =
     (case findOne_email s e of
        None \<Rightarrow> (respond Error ''User not found'' Null, s)
      | Some user \<Rightarrow>
          let code = toString (random_otp ev);
              s1 = (case findOne_otp_user s (user_id user) of
                      None \<Rightarrow> s
                    | Some oldOtp \<Rightarrow> if resend then delete_otp s (otp_id oldOtp) else s);
              (newOtp, s2) = save_otp (now ev) s1 (user_id user) code
          in (case mail ev of
                Rejected m \<Rightarrow> (caught m ''Failed to generate OTP'', s2)
              | Resolved \<Rightarrow>
                  (respond Success ''OTP generated successfully''
                     (OtpIssued (user_id user) (expires_at newOtp)), s2)))"

text \<open>\<open>user.settings && user.settings.verified\<close> as a condition.\<close>

definition settings_verified :: "User \<Rightarrow> bool" where
  "settings_verified u = (case settings u of None \<Rightarrow> False | Some st \<Rightarrow> verified st = Some True)"

text \<open>The object literal \<open>{ verified: true }\<close>: it has no other property.\<close>

definition verified_only :: Settings where
  "verified_only =
     \<lparr>verified = Some True, notificationsEmail = None, notificationsSms = None,
      securityTwoFactorAuth = None, language = None\<rparr>"

text \<open>
  Modelled from the spec: the \<open>User\<close> and \<open>Settings\<close> entities, which decide what
  \<open>userRepository.update(user.id, { settings: { verified: true } })\<close> stores, are not among
  the sources. The spec has the successful verification "set the user's verified flag true",
  the flag being "part of a settings aggregate that also holds unrelated preferences": the
  \<open>verified\<close> field of the row's settings becomes true and the other fields of the settings
  stay; a row without settings gets the object written.
\<close>

definition set_verified :: "Settings option \<Rightarrow> Settings" where
  "set_verified so = (case so of None \<Rightarrow> verified_only | Some st \<Rightarrow> st\<lparr>verified := Some True\<rparr>)"

definition mark_verified :: "User \<Rightarrow> User" where
  "mark_verified u = u\<lparr>settings := Some (set_verified (settings u))\<rparr>"

definition verifyOtp :: "env \<Rightarrow> store \<Rightarrow> string \<Rightarrow> string \<Rightarrow> RequestResponse \<times> store" where
  "verifyOtp ev s e code =
     (case findOne_email s e of
        None \<Rightarrow> (respond Error ''User not found'' Null, s)
      | Some user \<Rightarrow>
          if settings_verified user then (respond Error ''User is already verified'' Null, s)
          else
            (case findOne_otp_user_code s (user_id user) code of
               None \<Rightarrow> (respond Error ''Invalid OTP'' Null, s)
             | Some otpRecord \<Rightarrow>
                 if expires_at otpRecord < now ev
                 then (respond Error ''OTP has expired'' Null, s)
                 else
                   let s1 = update_user s (user_id user) mark_verified;
                       s2 = delete_otp s1 (otp_id otpRecord)
                   in (respond Success ''OTP verified successfully'' Null, s2)))"

definition generateResetToken :: "env \<Rightarrow> store \<Rightarrow> string \<Rightarrow> RequestResponse \<times> store" where
  "generateResetToken ev s payload_email =
     (case findOne_email s payload_email of
        None \<Rightarrow> (respond Error ''User not found'' Null, s)
      | Some user \<Rightarrow>
          let tok = signAsync payload_email secret (now ev);
              s1 = update_user s (user_id user) (\<lambda>u. u\<lparr>resetPasswordToken := Some tok\<rparr>)
          in (case mail ev of
                Rejected m \<Rightarrow> (caught m ''Failed to generate reset token'', s1)
              | Resolved \<Rightarrow> (respond Success ''Password reset email sent successfully'' Null, s1)))"

definition resetPassword :: "env \<Rightarrow> store \<Rightarrow> string \<Rightarrow> RequestResponse \<times> store" where
  "resetPassword ev s payload_email =
     (case findOne_email s payload_email of
        None \<Rightarrow> (respond Error ''User not found'' Null, s)
      | Some user \<Rightarrow>
          let (otpResponse, s1) = generateResetToken ev s payload_email
          in if result otpResponse = Error then (otpResponse, s1)
             else (respond Success ''Password reset email sent successfully'' Null, s1))"

definition verifyResetToken :: "env \<Rightarrow> store \<Rightarrow> token \<Rightarrow> RequestResponse \<times> store" where
  "verifyResetToken ev s tok =
     (case jwt_verify tok secret (now ev) of
        Inl m \<Rightarrow> (caught m ''Failed to verify token'', s)
      | Inr decoded_email \<Rightarrow>
          (case findOne_email s decoded_email of
             None \<Rightarrow> (respond Error ''User not found'' Null, s)
           | Some user \<Rightarrow>
               if resetPasswordToken user \<noteq> Some tok
               then (respond Error ''Invalid token'' (Valid False), s)
               else (respond Success ''Token verified successfully'' (Valid True), s)))"

definition updatePassword :: "env \<Rightarrow> store \<Rightarrow> token \<Rightarrow> string \<Rightarrow> RequestResponse \<times> store" where
  "updatePassword ev s tok pw =
     (case jwt_verify tok secret (now ev) of
        Inl m \<Rightarrow> (caught m ''Failed to update password'', s)
      | Inr decoded_email \<Rightarrow>
          (case findOne_email s decoded_email of
             None \<Rightarrow> (respond Error ''User not found'' Null, s)
           | Some user \<Rightarrow>
               if resetPasswordToken user \<noteq> Some tok
               then (respond Error ''Invalid token'' Null, s)
               else
                 let hashedPassword = bcrypt_hash ev pw 10;
                     s1 = update_user s (user_id user) (\<lambda>u. u\<lparr>password := hashedPassword\<rparr>)
                 in (case mail ev of
                       Rejected m \<Rightarrow> (caught m ''Failed to update password'', s1)
                     | Resolved \<Rightarrow> (respond Success ''Password updated successfully'' Null, s1))))"

text \<open>
  \<open>checkOnlineConditions(user)\<close>: a list of checks with their messages, run in order; the
  first check that is falsy throws. The one check reads \<open>user.settings.verified\<close>, which
  is a \<open>TypeError\<close> when \<open>user.settings\<close> is null.
\<close>

definition conditions :: "User \<Rightarrow> ((unit \<Rightarrow> exception + bool) \<times> string) list" where
  "conditions user =
     [(\<lambda>_. case settings user of
              None \<Rightarrow> Inl (TypeError ''Cannot read properties of null (reading 'verified')'')
            | Some st \<Rightarrow> Inr (verified st = Some True),
       ''Email must be verified to come online.'')]"

fun run_conditions :: "((unit \<Rightarrow> exception + bool) \<times> string) list \<Rightarrow> exception + unit" where
  "run_conditions [] = Inr ()"
| "run_conditions ((check, msg) # cs) =
     (case check () of
        Inl ex \<Rightarrow> Inl ex
      | Inr ok \<Rightarrow> if \<not> ok then Inl (HttpException msg 400) else run_conditions cs)"

definition checkOnlineConditions :: "User \<Rightarrow> exception + unit" where
  "checkOnlineConditions user = run_conditions (conditions user)"

text \<open>
  \<open>toggleUserStatus(userId)\<close> has no \<open>try\<close>: an exception leaves it, \<open>Inl\<close> here, before
  anything is written.
\<close>

definition toggleUserStatus :: "store \<Rightarrow> string \<Rightarrow> (exception + RequestResponse) \<times> store" where
  "toggleUserStatus s i =
     (case findOne_id s i of
        None \<Rightarrow> (Inl (HttpException ''User not found.'' 404), s)
      | Some user \<Rightarrow>
          if status user = Offline then
            (case checkOnlineConditions user of
               Inl ex \<Rightarrow> (Inl ex, s)
             | Inr _ \<Rightarrow>
                 let user' = user\<lparr>status := Online\<rparr>
                 in (Inr (respond Success ''User status updated to online.'' (UserData user')),
                     save_user s user'))
          else
            let user' = user\<lparr>status := Offline\<rparr>
            in (Inr (respond Success ''User status updated to offline.'' (UserData user')),
                save_user s user'))"

definition getUserStatus :: "store \<Rightarrow> string \<Rightarrow> exception + RequestResponse" where
  "getUserStatus s i =
     (case findOne_id s i of
        None \<Rightarrow> Inl (HttpException ''User not found.'' 404)
      | Some user \<Rightarrow>
          Inr (respond Success ''User status fetched successfully.'' (StatusData (status user))))"

section \<open>The single-OTP invariant\<close>

text \<open>At most one row of the OTP table for each \<open>userId\<close>.\<close>

definition one_otp_per_user :: "store \<Rightarrow> bool" where
  "one_otp_per_user s = distinct (map userId (otps s))"

text \<open>The row that \<open>generateOtp\<close> inserts for a user, under the primary key \<open>k\<close>.\<close>

definition issued_otp :: "env \<Rightarrow> User \<Rightarrow> nat \<Rightarrow> VerificationOtp" where
  "issued_otp ev user k =
     \<lparr>otp_id = k, userId = user_id user, otp = toString (random_otp ev),
      expires_at = now ev + otp_ttl\<rparr>"

section \<open>Example data\<close>

text \<open>
  A store with an unverified user who holds preferences and a user whose \<open>settings\<close> is
  null; \<open>bcrypt.hash\<close> is replaced there by a function that only tags the password.
\<close>

definition alice :: User where
  "alice = \<lparr>user_id = ''u1'', email = ''a@x.com'', phone = ''555'', firstName = ''Alice'',
     password = ''old'', status = Offline, resetPasswordToken = None,
     settings = Some \<lparr>verified = Some False, notificationsEmail = Some True,
       notificationsSms = Some False, securityTwoFactorAuth = Some False,
       language = Some ''en''\<rparr>\<rparr>"

definition bob :: User where
  "bob = \<lparr>user_id = ''u2'', email = ''b@x.com'', phone = ''556'', firstName = ''Bob'',
     password = ''pw'', status = Offline, resetPasswordToken = None, settings = None\<rparr>"

definition store0 :: store where
  "store0 = \<lparr>users = [alice, bob], otps = []\<rparr>"

definition env0 :: env where
  "env0 = \<lparr>now = 5000, random_otp = 4711, mail = Resolved,
     bcrypt_hash = (\<lambda>pw rounds. ''$2b$'' @ toString rounds @ ''$'' @ pw)\<rparr>"

definition token0 :: token where
  "token0 = signAsync ''a@x.com'' secret 5000"

definition store_reset :: store where
  "store_reset = \<lparr>users = [alice\<lparr>resetPasswordToken := Some token0\<rparr>], otps = []\<rparr>"

definition store_otp :: store where
  "store_otp = \<lparr>users = [alice, bob],
     otps = [\<lparr>otp_id = 1, userId = ''u1'', otp = ''4711'', expires_at = 305000\<rparr>]\<rparr>"

definition env1 :: env where
  "env1 = env0\<lparr>now := 60000\<rparr>"


definition store_bob_otp :: store where
  "store_bob_otp = \<lparr>users = [alice, bob],
     otps = [\<lparr>otp_id = 7, userId = ''u2'', otp = ''1234'', expires_at = 305000\<rparr>]\<rparr>"

definition store_verified :: store where
  "store_verified = \<lparr>users = [mark_verified alice, bob], otps = []\<rparr>"

definition env_same_second :: env where
  "env_same_second = env0\<lparr>now := 5999\<rparr>"

definition env_no_mail :: env where
  "env_no_mail = env0\<lparr>mail := Rejected ''ECONNREFUSED''\<rparr>"

lemmas example_defs = alice_def bob_def store0_def env0_def token0_def store_reset_def store_otp_def

section \<open>Basic facts\<close>

lemma find_map_pres:
  "(\<And>x. P (g x) = P x) \<Longrightarrow> find P (map g xs) = map_option g (find P xs)"
  by (induction xs) auto

lemma findOne_email_update_user:
  "(\<And>u. email (f u) = email u) \<Longrightarrow>
   findOne_email (update_user s i f) e =
     map_option (\<lambda>u. if user_id u = i then f u else u) (findOne_email s e)"
  unfolding findOne_email_def update_user_def
  by (simp add: find_map_pres)

lemma findOne_email_delete_otp [simp]: "findOne_email (delete_otp s k) e = findOne_email s e"
  by (simp add: findOne_email_def delete_otp_def)

lemma findOne_email_email: "findOne_email s e = Some u \<Longrightarrow> email u = e"
  by (auto simp: findOne_email_def find_Some_iff)

lemma respond_sel [simp]:
  "result (respond k m d) = k" "message (respond k m d) = m" "data (respond k m d) = d"
  by (simp_all add: respond_def)

lemma caught_sel [simp]:
  "result (caught m f) = Error" "data (caught m f) = Null"
  "message (caught m f) = (if m = [] then f else m)"
  by (simp_all add: caught_def)

lemma otps_update_user [simp]: "otps (update_user s i f) = otps s"
  by (simp add: update_user_def)

lemma otps_save_user [simp]: "otps (save_user s u) = otps s"
  by (simp add: save_user_def split: option.splits)

lemma findOne_id_user_id: "findOne_id s i = Some u \<Longrightarrow> user_id u = i"
  by (auto simp: findOne_id_def find_Some_iff)

lemma find_append_None: "find Q xs = None \<Longrightarrow> find Q (xs @ [r]) = (if Q r then Some r else None)"
  by (induction xs) (auto split: if_splits)

section \<open>Issuing an OTP and the invariant\<close>

lemma one_otp_delete: "one_otp_per_user s \<Longrightarrow> one_otp_per_user (delete_otp s k)"
  by (simp add: one_otp_per_user_def delete_otp_def distinct_map_filter)

lemma one_otp_save_fresh:
  assumes "one_otp_per_user s" "findOne_otp_user s i = None"
  shows "one_otp_per_user (snd (save_otp t s i c))"
proof -
  from assms(2) have "i \<notin> userId ` set (otps s)"
    by (auto simp: findOne_otp_user_def find_None_iff)
  with assms(1) show ?thesis
    by (simp add: one_otp_per_user_def save_otp_def Let_def)
qed

lemma one_otp_delete_old:
  assumes "one_otp_per_user s" "findOne_otp_user s i = Some old"
  shows "findOne_otp_user (delete_otp s (otp_id old)) i = None"
proof -
  from assms(2) have old: "old \<in> set (otps s)" "userId old = i"
    by (auto simp: findOne_otp_user_def find_Some_iff)
  from assms(1) have inj: "inj_on userId (set (otps s))"
    by (simp add: one_otp_per_user_def distinct_map)
  have "otp_id r = otp_id old" if "r \<in> set (otps s)" "userId r = i" for r
    using inj_onD [OF inj _ that(1) old(1)] that(2) old(2) by simp
  then show ?thesis
    by (auto simp: findOne_otp_user_def find_None_iff delete_otp_def)
qed

lemma snd_generateOtp:
  "snd (generateOtp ev s e resend) =
     (case findOne_email s e of
        None \<Rightarrow> s
      | Some user \<Rightarrow>
          snd (save_otp (now ev)
                 (case findOne_otp_user s (user_id user) of
                    None \<Rightarrow> s
                  | Some oldOtp \<Rightarrow> if resend then delete_otp s (otp_id oldOtp) else s)
                 (user_id user) (toString (random_otp ev))))"
  by (simp add: generateOtp_def Let_def split: option.splits prod.splits mail_outcome.splits)

lemma one_otp_generateOtp_resend:
  assumes "one_otp_per_user s"
  shows "one_otp_per_user (snd (generateOtp ev s e True))"
proof (cases "findOne_email s e")
  case None
  with assms show ?thesis by (simp add: snd_generateOtp)
next
  case (Some user)
  show ?thesis
  proof (cases "findOne_otp_user s (user_id user)")
    case None
    with Some assms show ?thesis
      by (simp add: snd_generateOtp one_otp_save_fresh)
  next
    case (Some old)
    with \<open>findOne_email s e = Some user\<close> assms show ?thesis
      by (simp add: snd_generateOtp one_otp_save_fresh one_otp_delete one_otp_delete_old)
  qed
qed

lemma one_otp_generateOtp_first:
  assumes "one_otp_per_user s" "\<forall>u. findOne_email s e = Some u \<longrightarrow> findOne_otp_user s (user_id u) = None"
  shows "one_otp_per_user (snd (generateOtp ev s e resend))"
  using assms by (cases "findOne_email s e") (simp_all add: snd_generateOtp one_otp_save_fresh)

lemma one_otp_verifyOtp:
  "one_otp_per_user s \<Longrightarrow> one_otp_per_user (snd (verifyOtp ev s e c))"
  by (auto simp: verifyOtp_def Let_def one_otp_per_user_def delete_otp_def distinct_map_filter
      split: option.splits)

lemma otps_generateResetToken: "otps (snd (generateResetToken ev s e)) = otps s"
  by (simp add: generateResetToken_def Let_def split: option.splits mail_outcome.splits)

lemma otps_resetPassword: "otps (snd (resetPassword ev s e)) = otps s"
  using otps_generateResetToken [of ev s e]
  by (cases "generateResetToken ev s e") (auto simp: resetPassword_def split: option.splits)

lemma snd_verifyResetToken: "snd (verifyResetToken ev s tok) = s"
  by (simp add: verifyResetToken_def split: sum.splits option.splits)

lemma otps_updatePassword: "otps (snd (updatePassword ev s tok pw)) = otps s"
  by (simp add: updatePassword_def Let_def split: sum.splits option.splits mail_outcome.splits)

lemma otps_toggleUserStatus: "otps (snd (toggleUserStatus s i)) = otps s"
  by (simp add: toggleUserStatus_def Let_def split: sum.splits option.splits)

lemma find_None_filter: "find P xs = None \<Longrightarrow> filter P xs = []"
  by (simp add: find_None_iff filter_empty_conv)

lemma otps_generateOtp:
  assumes "findOne_email s e = Some user"
  shows "otps (snd (generateOtp ev s e resend)) =
     (case findOne_otp_user s (user_id user) of
        None \<Rightarrow> otps s @ [issued_otp ev user (fresh_otp_id (otps s))]
      | Some old \<Rightarrow>
          if resend
          then otps (delete_otp s (otp_id old)) @
                 [issued_otp ev user (fresh_otp_id (otps (delete_otp s (otp_id old))))]
          else otps s @ [issued_otp ev user (fresh_otp_id (otps s))])"
  using assms
  by (simp add: snd_generateOtp save_otp_def issued_otp_def Let_def split: option.splits)

lemma generateOtp_resend_replaces:
  assumes "one_otp_per_user s" "findOne_email s e = Some user"
  shows "\<exists>k. filter (\<lambda>r. userId r = user_id user) (otps (snd (generateOtp ev s e True))) =
           [issued_otp ev user k]"
proof (cases "findOne_otp_user s (user_id user)")
  case None
  then have "filter (\<lambda>r. userId r = user_id user) (otps s) = []"
    unfolding findOne_otp_user_def by (rule find_None_filter)
  with None assms(2) show ?thesis
    by (simp add: otps_generateOtp issued_otp_def)
next
  case (Some old)
  from one_otp_delete_old [OF assms(1) Some]
  have "filter (\<lambda>r. userId r = user_id user) (otps (delete_otp s (otp_id old))) = []"
    unfolding findOne_otp_user_def by (rule find_None_filter)
  with Some assms(2) show ?thesis
    by (simp add: otps_generateOtp issued_otp_def)
qed

lemma generateOtp_no_resend_duplicates:
  assumes "findOne_email s e = Some user" "findOne_otp_user s (user_id user) = Some old"
  shows "otps (snd (generateOtp ev s e False)) =
           otps s @ [issued_otp ev user (fresh_otp_id (otps s))] \<and>
         old \<in> set (otps s) \<and> userId old = user_id user \<and>
         \<not> one_otp_per_user (snd (generateOtp ev s e False))"
proof -
  from assms(2) have old: "old \<in> set (otps s)" "userId old = user_id user"
    by (auto simp: findOne_otp_user_def find_Some_iff)
  have o: "otps (snd (generateOtp ev s e False)) =
      otps s @ [issued_otp ev user (fresh_otp_id (otps s))]"
    by (simp add: otps_generateOtp [OF assms(1)] assms(2))
  from old have "user_id user \<in> userId ` set (otps s)" by force
  then have "\<not> distinct (map userId (otps s @ [issued_otp ev user (fresh_otp_id (otps s))]))"
    by (simp add: issued_otp_def)
  with o old show ?thesis
    by (simp add: one_otp_per_user_def)
qed

text \<open>
  C2 (as the code has it). Let the OTP table hold at most one row for each user. Then it
  still does after \<open>generateOtp\<close> with \<open>resend\<close> true, which deletes the row found for
  the user and appends the row issued, so that the rows of the user are then exactly that
  one; after \<open>generateOtp\<close> without \<open>resend\<close> for a user
  who has no OTP row; and after every other method, none of which inserts a row. Without
  \<open>resend\<close>, for a user who has a row, \<open>generateOtp\<close> appends the new row to the table as
  it was: the old row stays, and the table then holds two rows of that user.
\<close>

theorem one_otp_per_user_preserved:
  assumes "one_otp_per_user s"
  shows "one_otp_per_user (snd (generateOtp ev s e True)) \<and>
         (\<forall>user. findOne_email s e = Some user \<longrightarrow>
            (\<exists>k. filter (\<lambda>r. userId r = user_id user) (otps (snd (generateOtp ev s e True))) =
               [issued_otp ev user k])) \<and>
         (\<forall>user old. findOne_email s e = Some user \<and> findOne_otp_user s (user_id user) = Some old \<longrightarrow>
            otps (snd (generateOtp ev s e True)) =
              filter (\<lambda>r. otp_id r \<noteq> otp_id old) (otps s) @
                [issued_otp ev user (fresh_otp_id (filter (\<lambda>r. otp_id r \<noteq> otp_id old) (otps s)))]) \<and>
         ((\<forall>u. findOne_email s e = Some u \<longrightarrow> findOne_otp_user s (user_id u) = None) \<longrightarrow>
            one_otp_per_user (snd (generateOtp ev s e False))) \<and>
         (\<forall>user old. findOne_email s e = Some user \<and> findOne_otp_user s (user_id user) = Some old \<longrightarrow>
            otps (snd (generateOtp ev s e False)) =
              otps s @ [issued_otp ev user (fresh_otp_id (otps s))] \<and>
            old \<in> set (otps s) \<and> userId old = user_id user \<and>
            \<not> one_otp_per_user (snd (generateOtp ev s e False))) \<and>
         one_otp_per_user (snd (verifyOtp ev s e c)) \<and>
         one_otp_per_user (snd (generateResetToken ev s e)) \<and>
         one_otp_per_user (snd (resetPassword ev s e)) \<and>
         one_otp_per_user (snd (verifyResetToken ev s tok)) \<and>
         one_otp_per_user (snd (updatePassword ev s tok pw)) \<and>
         one_otp_per_user (snd (toggleUserStatus s i))"
proof -
  have 1: "one_otp_per_user (snd (generateOtp ev s e True))"
    using assms by (rule one_otp_generateOtp_resend)
  have 2: "\<exists>k. filter (\<lambda>r. userId r = user_id user) (otps (snd (generateOtp ev s e True))) =
               [issued_otp ev user k]"
    if "findOne_email s e = Some user" for user
    using assms that by (rule generateOtp_resend_replaces)
  have 7: "otps (snd (generateOtp ev s e True)) =
              filter (\<lambda>r. otp_id r \<noteq> otp_id old) (otps s) @
                [issued_otp ev user (fresh_otp_id (filter (\<lambda>r. otp_id r \<noteq> otp_id old) (otps s)))]"
    if "findOne_email s e = Some user \<and> findOne_otp_user s (user_id user) = Some old"
    for user old
    using that by (simp add: otps_generateOtp delete_otp_def)
  have 3: "one_otp_per_user (snd (generateOtp ev s e False))"
    if "\<forall>u. findOne_email s e = Some u \<longrightarrow> findOne_otp_user s (user_id u) = None"
    using assms that by (rule one_otp_generateOtp_first)
  have 4: "otps (snd (generateOtp ev s e False)) =
              otps s @ [issued_otp ev user (fresh_otp_id (otps s))] \<and>
            old \<in> set (otps s) \<and> userId old = user_id user \<and>
            \<not> one_otp_per_user (snd (generateOtp ev s e False))"
    if "findOne_email s e = Some user \<and> findOne_otp_user s (user_id user) = Some old"
    for user old
    using that generateOtp_no_resend_duplicates [of s e user old ev] by blast
  have 5: "one_otp_per_user (snd (verifyOtp ev s e c))"
    using assms by (rule one_otp_verifyOtp)
  have 6: "one_otp_per_user (snd (generateResetToken ev s e))"
    "one_otp_per_user (snd (resetPassword ev s e))"
    "one_otp_per_user (snd (verifyResetToken ev s tok))"
    "one_otp_per_user (snd (updatePassword ev s tok pw))"
    "one_otp_per_user (snd (toggleUserStatus s i))"
    using assms
    by (simp_all add: one_otp_per_user_def otps_generateResetToken otps_resetPassword
        snd_verifyResetToken otps_updatePassword otps_toggleUserStatus)
  from 1 2 7 3 4 5 6 show ?thesis by blast
qed

theorem one_otp_per_user_preserved_witness:
  "one_otp_per_user store_otp \<and>
   findOne_email store_otp ''a@x.com'' = Some alice \<and>
   findOne_otp_user store_otp (user_id alice) = Some (hd (otps store_otp)) \<and>
   one_otp_per_user (snd (generateOtp env0 store_otp ''a@x.com'' True)) \<and>
   (\<exists>k. filter (\<lambda>r. userId r = user_id alice)
           (otps (snd (generateOtp env0 store_otp ''a@x.com'' True))) = [issued_otp env0 alice k]) \<and>
   otps (snd (generateOtp env0 store_otp ''a@x.com'' False)) =
     otps store_otp @ [issued_otp env0 alice (fresh_otp_id (otps store_otp))] \<and>
   \<not> one_otp_per_user (snd (generateOtp env0 store_otp ''a@x.com'' False)) \<and>
   findOne_email store_otp ''b@x.com'' = Some bob \<and>
   findOne_otp_user store_otp (user_id bob) = None \<and>
   one_otp_per_user (snd (generateOtp env0 store_otp ''b@x.com'' False))"
proof -
  have h: "one_otp_per_user store_otp"
    by (simp add: one_otp_per_user_def store_otp_def)
  have a: "findOne_email store_otp ''a@x.com'' = Some alice"
    "findOne_otp_user store_otp (user_id alice) = Some (hd (otps store_otp))"
    by (simp_all add: example_defs findOne_email_def findOne_otp_user_def)
  have b: "findOne_email store_otp ''b@x.com'' = Some bob"
    "findOne_otp_user store_otp (user_id bob) = None"
    by (simp_all add: example_defs findOne_email_def findOne_otp_user_def)
  from b have f: "\<forall>u. findOne_email store_otp ''b@x.com'' = Some u \<longrightarrow>
      findOne_otp_user store_otp (user_id u) = None"
    by simp
  from one_otp_per_user_preserved [OF h, of env0 "''a@x.com''"] a
  have 1: "one_otp_per_user (snd (generateOtp env0 store_otp ''a@x.com'' True))"
    "\<exists>k. filter (\<lambda>r. userId r = user_id alice)
           (otps (snd (generateOtp env0 store_otp ''a@x.com'' True))) = [issued_otp env0 alice k]"
    "otps (snd (generateOtp env0 store_otp ''a@x.com'' False)) =
       otps store_otp @ [issued_otp env0 alice (fresh_otp_id (otps store_otp))]"
    "\<not> one_otp_per_user (snd (generateOtp env0 store_otp ''a@x.com'' False))"
    by blast+
  from one_otp_per_user_preserved [OF h, of env0 "''b@x.com''"] f
  have 2: "one_otp_per_user (snd (generateOtp env0 store_otp ''b@x.com'' False))"
    by blast
  from h a b 1 2 show ?thesis by blast
qed

text \<open>
  C2 as stated fails: without \<open>resend\<close> the old row stays and a second row of the same
  user is inserted.
\<close>

theorem generateOtp_without_resend_counterexample:
  "one_otp_per_user store_otp \<and>
   map userId (otps (snd (generateOtp env0 store_otp ''a@x.com'' False))) = [''u1'', ''u1''] \<and>
   \<not> one_otp_per_user (snd (generateOtp env0 store_otp ''a@x.com'' False))"
  by (simp add: one_otp_per_user_def snd_generateOtp example_defs findOne_email_def
      findOne_otp_user_def save_otp_def Let_def)

lemma fst_generateOtp:
  assumes "findOne_email s e = Some user"
  shows "fst (generateOtp ev s e resend) =
     (case mail ev of
        Rejected m \<Rightarrow> caught m ''Failed to generate OTP''
      | Resolved \<Rightarrow> respond Success ''OTP generated successfully''
                      (OtpIssued (user_id user) (now ev + otp_ttl)))"
  using assms
  by (simp add: generateOtp_def save_otp_def Let_def split: option.splits mail_outcome.splits)

lemma last_otps_generateOtp:
  assumes "findOne_email s e = Some user"
  shows "\<exists>k. last (otps (snd (generateOtp ev s e resend))) =
           \<lparr>otp_id = k, userId = user_id user, otp = toString (random_otp ev),
            expires_at = now ev + otp_ttl\<rparr> \<and> otps (snd (generateOtp ev s e resend)) \<noteq> []"
  using assms by (simp add: snd_generateOtp save_otp_def Let_def)

text \<open>
  C4 (as the code has it). For an existing user, \<open>generateOtp\<close> reports success when the
  \<open>sendEmail\<close> call returns. When the call throws, the \<open>catch\<close> block reports an error
  with the notifier's message, and the store is the one a successful issuance leaves: the
  OTP record written before the mail was sent stays.
\<close>

theorem generateOtp_notifier_outcome:
  assumes "findOne_email s e = Some user"
  shows "(mail ev = Resolved \<longrightarrow> result (fst (generateOtp ev s e resend)) = Success) \<and>
         (\<forall>m. mail ev = Rejected m \<longrightarrow>
            fst (generateOtp ev s e resend) = caught m ''Failed to generate OTP'' \<and>
            result (fst (generateOtp ev s e resend)) = Error) \<and>
         snd (generateOtp ev s e resend) = snd (generateOtp (ev\<lparr>mail := Resolved\<rparr>) s e resend) \<and>
         (\<exists>k. \<lparr>otp_id = k, userId = user_id user, otp = toString (random_otp ev),
                expires_at = now ev + otp_ttl\<rparr> \<in> set (otps (snd (generateOtp ev s e resend))))"
proof -
  from last_otps_generateOtp [OF assms, of ev resend] obtain k where
    k: "last (otps (snd (generateOtp ev s e resend))) =
           \<lparr>otp_id = k, userId = user_id user, otp = toString (random_otp ev),
            expires_at = now ev + otp_ttl\<rparr>" and ne: "otps (snd (generateOtp ev s e resend)) \<noteq> []"
    by blast
  from ne have "last (otps (snd (generateOtp ev s e resend))) \<in> set (otps (snd (generateOtp ev s e resend)))"
    by (rule last_in_set)
  with k have 4: "\<exists>k. \<lparr>otp_id = k, userId = user_id user, otp = toString (random_otp ev),
                expires_at = now ev + otp_ttl\<rparr> \<in> set (otps (snd (generateOtp ev s e resend)))"
    by auto
  have 3: "snd (generateOtp ev s e resend) = snd (generateOtp (ev\<lparr>mail := Resolved\<rparr>) s e resend)"
    by (simp add: snd_generateOtp assms)
  from 3 4 show ?thesis
    by (simp add: fst_generateOtp [OF assms])
qed

theorem generateOtp_notifier_outcome_witness:
  "findOne_email store0 ''a@x.com'' = Some alice \<and>
   mail (env0\<lparr>mail := Rejected ''ECONNREFUSED''\<rparr>) = Rejected ''ECONNREFUSED'' \<and>
   fst (generateOtp (env0\<lparr>mail := Rejected ''ECONNREFUSED''\<rparr>) store0 ''a@x.com'' False)
     = caught ''ECONNREFUSED'' ''Failed to generate OTP'' \<and>
   mail env0 = Resolved \<and>
   result (fst (generateOtp env0 store0 ''a@x.com'' False)) = Success"
proof -
  have h: "findOne_email store0 ''a@x.com'' = Some alice"
    by (simp add: findOne_email_def example_defs)
  have m: "mail (env0\<lparr>mail := Rejected ''ECONNREFUSED''\<rparr>) = Rejected ''ECONNREFUSED''" "mail env0 = Resolved"
    by (simp_all add: env0_def)
  from generateOtp_notifier_outcome [OF h, of "env0\<lparr>mail := Rejected ''ECONNREFUSED''\<rparr>" False]
    generateOtp_notifier_outcome [OF h, of env0 False] h m
  show ?thesis by blast
qed

text \<open>
  C4 as stated fails: the store write succeeds, the notifier throws, and the issuance reports
  an error.
\<close>

theorem generateOtp_notifier_failure_counterexample:
  "result (fst (generateOtp (env0\<lparr>mail := Rejected ''ECONNREFUSED''\<rparr>) store0 ''a@x.com'' False)) = Error \<and>
   message (fst (generateOtp (env0\<lparr>mail := Rejected ''ECONNREFUSED''\<rparr>) store0 ''a@x.com'' False)) = ''ECONNREFUSED'' \<and>
   map otp (otps (snd (generateOtp (env0\<lparr>mail := Rejected ''ECONNREFUSED''\<rparr>) store0 ''a@x.com'' False))) = [''4711'']"
  by (simp add: generateOtp_def example_defs findOne_email_def findOne_otp_user_def save_otp_def
      Let_def toString.simps)

section \<open>Verifying an OTP\<close>

lemma mark_verified_sel [simp]:
  "email (mark_verified u) = email u" "user_id (mark_verified u) = user_id u"
  "settings_verified (mark_verified u)"
  by (simp_all add: mark_verified_def settings_verified_def set_verified_def verified_only_def
      split: option.splits)

lemma verifyOtp_success:
  assumes "result (fst (verifyOtp ev s e code)) = Success"
  obtains user r where "findOne_email s e = Some user" "\<not> settings_verified user"
    "findOne_otp_user_code s (user_id user) code = Some r" "\<not> expires_at r < now ev"
    "snd (verifyOtp ev s e code) =
       delete_otp (update_user s (user_id user) mark_verified) (otp_id r)"
proof -
  from assms obtain user where u: "findOne_email s e = Some user"
    by (cases "findOne_email s e") (auto simp: verifyOtp_def)
  from assms u have nv: "\<not> settings_verified user"
    by (auto simp: verifyOtp_def split: if_splits)
  from assms u nv obtain r where r: "findOne_otp_user_code s (user_id user) code = Some r"
    by (cases "findOne_otp_user_code s (user_id user) code") (auto simp: verifyOtp_def)
  from assms u nv r that show thesis
    by (auto simp: verifyOtp_def Let_def split: if_splits)
qed

lemma findOne_email_after_verifyOtp:
  assumes "result (fst (verifyOtp ev s e code)) = Success"
  shows "findOne_email (snd (verifyOtp ev s e code)) e = map_option mark_verified (findOne_email s e)"
proof -
  from assms obtain user and r :: VerificationOtp where u: "findOne_email s e = Some user"
    and s': "snd (verifyOtp ev s e code) =
       delete_otp (update_user s (user_id user) mark_verified) (otp_id r)"
    by (rule verifyOtp_success) blast
  show ?thesis
    unfolding s' by (simp add: findOne_email_update_user u)
qed

lemma verifyOtp_store_otp:
  "verifyOtp env1 store_otp ''a@x.com'' ''4711'' =
     (respond Success ''OTP verified successfully'' Null,
      \<lparr>users = [mark_verified alice, bob], otps = []\<rparr>)"
  by (simp add: verifyOtp_def example_defs env1_def findOne_email_def findOne_otp_user_code_def
      settings_verified_def update_user_def delete_otp_def Let_def)

lemma verifyOtp_after_generateOtp:
  assumes "findOne_email s e = Some user"
    and "\<not> settings_verified user"
    and "findOne_otp_user s (user_id user) = None"
    and "now ev' \<le> now ev + otp_ttl"
  shows "verifyOtp ev' (snd (generateOtp ev s e resend)) e (toString (random_otp ev)) =
      (respond Success ''OTP verified successfully'' Null,
       delete_otp (update_user (snd (generateOtp ev s e resend)) (user_id user) mark_verified)
         (fresh_otp_id (otps s)))"
proof -
  let ?code = "toString (random_otp ev)"
  let ?s1 = "snd (generateOtp ev s e resend)"
  let ?r = "issued_otp ev user (fresh_otp_id (otps s))"
  have s1: "?s1 = s\<lparr>otps := otps s @ [?r]\<rparr>"
    by (simp add: snd_generateOtp assms(1,3) save_otp_def issued_otp_def Let_def)
  have u1: "findOne_email ?s1 e = Some user"
    using assms(1) by (simp add: s1 findOne_email_def)
  from assms(3) have "find (\<lambda>r. userId r = user_id user \<and> otp r = ?code) (otps s) = None"
    by (auto simp: findOne_otp_user_def find_None_iff)
  then have r1: "findOne_otp_user_code ?s1 (user_id user) ?code = Some ?r"
    by (simp add: s1 findOne_otp_user_code_def find_append_None issued_otp_def)
  show ?thesis
    using assms(2,4) by (simp add: verifyOtp_def u1 r1 Let_def) (simp add: issued_otp_def)
qed

text \<open>
  C9 (as the code has it). For an existing user who is not verified and has no OTP record,
  \<open>generateOtp\<close> succeeds with the user's id and \<open>expires_at = now + 5 minutes\<close> when its
  mail is sent, and reports an error when \<open>sendEmail\<close> throws. In both cases the record is
  stored: a following \<open>verifyOtp\<close> with the same email and the issued code, at an instant not
  after \<open>expires_at\<close>, succeeds, and the user found by that email then has \<open>verified\<close> true.
\<close>

theorem issueOtp_then_verifyOtp:
  assumes "findOne_email s e = Some user"
    and "\<not> settings_verified user"
    and "findOne_otp_user s (user_id user) = None"
    and "now ev' \<le> now ev + otp_ttl"
  shows "(mail ev = Resolved \<longrightarrow>
            fst (generateOtp ev s e resend) =
              respond Success ''OTP generated successfully''
                (OtpIssued (user_id user) (now ev + otp_ttl))) \<and>
         (\<forall>m. mail ev = Rejected m \<longrightarrow>
            fst (generateOtp ev s e resend) = caught m ''Failed to generate OTP'') \<and>
         fst (verifyOtp ev' (snd (generateOtp ev s e resend)) e (toString (random_otp ev))) =
           respond Success ''OTP verified successfully'' Null \<and>
         (\<exists>u'. findOne_email
                 (snd (verifyOtp ev' (snd (generateOtp ev s e resend)) e (toString (random_otp ev)))) e
                 = Some u' \<and>
               user_id u' = user_id user \<and> settings_verified u')"
proof -
  let ?code = "toString (random_otp ev)"
  let ?s1 = "snd (generateOtp ev s e resend)"
  have 1: "fst (generateOtp ev s e resend) =
      respond Success ''OTP generated successfully'' (OtpIssued (user_id user) (now ev + otp_ttl))"
    if "mail ev = Resolved"
    by (simp add: fst_generateOtp [OF assms(1)] that)
  have 2: "fst (generateOtp ev s e resend) = caught m ''Failed to generate OTP''"
    if "mail ev = Rejected m" for m
    by (simp add: fst_generateOtp [OF assms(1)] that)
  have v: "fst (verifyOtp ev' ?s1 e ?code) = respond Success ''OTP verified successfully'' Null"
    by (simp add: verifyOtp_after_generateOtp [OF assms])
  then have "result (fst (verifyOtp ev' ?s1 e ?code)) = Success"
    by simp
  then have "findOne_email (snd (verifyOtp ev' ?s1 e ?code)) e =
      map_option mark_verified (findOne_email ?s1 e)"
    by (rule findOne_email_after_verifyOtp)
  moreover have "findOne_email ?s1 e = Some user"
    using assms(1) by (simp add: snd_generateOtp assms(3) save_otp_def Let_def findOne_email_def)
  ultimately have 3: "findOne_email (snd (verifyOtp ev' ?s1 e ?code)) e = Some (mark_verified user)"
    by simp
  from 1 2 v 3 show ?thesis by simp
qed

theorem issueOtp_then_verifyOtp_witness:
  "findOne_email store0 ''a@x.com'' = Some alice \<and> \<not> settings_verified alice \<and>
   findOne_otp_user store0 (user_id alice) = None \<and>
   now env1 \<le> now env0 + otp_ttl \<and> mail env0 = Resolved \<and>
   fst (generateOtp env0 store0 ''a@x.com'' False) =
     respond Success ''OTP generated successfully'' (OtpIssued ''u1'' 305000) \<and>
   fst (verifyOtp env1 (snd (generateOtp env0 store0 ''a@x.com'' False)) ''a@x.com'' ''4711'') =
     respond Success ''OTP verified successfully'' Null \<and>
   mail env_no_mail = Rejected ''ECONNREFUSED'' \<and> now env1 \<le> now env_no_mail + otp_ttl \<and>
   fst (generateOtp env_no_mail store0 ''a@x.com'' False) =
     caught ''ECONNREFUSED'' ''Failed to generate OTP'' \<and>
   fst (verifyOtp env1 (snd (generateOtp env_no_mail store0 ''a@x.com'' False)) ''a@x.com'' ''4711'') =
     respond Success ''OTP verified successfully'' Null"
proof -
  have h: "findOne_email store0 ''a@x.com'' = Some alice" "\<not> settings_verified alice"
    "findOne_otp_user store0 (user_id alice) = None"
    by (simp_all add: findOne_email_def findOne_otp_user_def settings_verified_def example_defs)
  have t: "now env1 \<le> now env0 + otp_ttl" "now env1 \<le> now env_no_mail + otp_ttl"
    by (simp_all add: env0_def env1_def env_no_mail_def otp_ttl_def)
  have m: "mail env0 = Resolved" "mail env_no_mail = Rejected ''ECONNREFUSED''"
    by (simp_all add: env0_def env_no_mail_def)
  have c: "toString (random_otp env0) = ''4711''" "toString (random_otp env_no_mail) = ''4711''"
    "user_id alice = ''u1''" "now env0 + otp_ttl = 305000"
    by (simp_all add: env0_def env_no_mail_def alice_def otp_ttl_def toString.simps)
  from issueOtp_then_verifyOtp [OF h t(1), of False] issueOtp_then_verifyOtp [OF h t(2), of False]
    h t m
  show ?thesis
    by (simp add: c)
qed

text \<open>
  C9 as stated fails: every condition of the claim holds of the user, the notifier throws,
  and the issuance reports an error.
\<close>

theorem issueOtp_notifier_rejects_counterexample:
  "findOne_email store0 ''a@x.com'' = Some alice \<and> \<not> settings_verified alice \<and>
   findOne_otp_user store0 (user_id alice) = None \<and>
   result (fst (generateOtp env_no_mail store0 ''a@x.com'' False)) = Error \<and>
   message (fst (generateOtp env_no_mail store0 ''a@x.com'' False)) = ''ECONNREFUSED''"
  by (simp add: generateOtp_def example_defs env_no_mail_def findOne_email_def
      findOne_otp_user_def settings_verified_def save_otp_def Let_def)

text \<open>
  C5 (as the code has it). After a successful \<open>verifyOtp\<close>, every further \<open>verifyOtp\<close> for
  the same email, with the same code or another, fails with \<open>User is already verified\<close>
  (the AlreadyVerified kind) and changes nothing: the guard on the verified flag comes
  before the OTP lookup.
\<close>

theorem verifyOtp_again_already_verified:
  assumes "result (fst (verifyOtp ev s e code)) = Success"
  shows "verifyOtp ev' (snd (verifyOtp ev s e code)) e code' =
           (respond Error ''User is already verified'' Null, snd (verifyOtp ev s e code))"
proof -
  from assms obtain user where u: "findOne_email s e = Some user"
    by (rule verifyOtp_success) blast
  have "findOne_email (snd (verifyOtp ev s e code)) e = Some (mark_verified user)"
    by (simp add: findOne_email_after_verifyOtp [OF assms] u)
  then show ?thesis
    by (simp add: verifyOtp_def [of ev' "snd (verifyOtp ev s e code)"])
qed

theorem verifyOtp_again_already_verified_witness:
  "result (fst (verifyOtp env1 store_otp ''a@x.com'' ''4711'')) = Success \<and>
   fst (verifyOtp env1 (snd (verifyOtp env1 store_otp ''a@x.com'' ''4711'')) ''a@x.com'' ''4711'')
     = respond Error ''User is already verified'' Null"
proof -
  have h: "result (fst (verifyOtp env1 store_otp ''a@x.com'' ''4711'')) = Success"
    by (simp add: verifyOtp_store_otp)
  from verifyOtp_again_already_verified [OF h, of env1 "''4711''"] h show ?thesis by simp
qed

text \<open>
  C5 as stated fails: the second call does not answer \<open>Invalid OTP\<close> (the
  InvalidCredential kind).
\<close>

theorem verifyOtp_again_invalid_counterexample:
  "result (fst (verifyOtp env1 store_otp ''a@x.com'' ''4711'')) = Success \<and>
   message (fst (verifyOtp env1 (snd (verifyOtp env1 store_otp ''a@x.com'' ''4711''))
                   ''a@x.com'' ''4711'')) = ''User is already verified'' \<and>
   message (fst (verifyOtp env1 (snd (verifyOtp env1 store_otp ''a@x.com'' ''4711''))
                   ''a@x.com'' ''4711'')) \<noteq> ''Invalid OTP''"
  by (simp add: verifyOtp_store_otp)
     (simp add: verifyOtp_def findOne_email_def alice_def)




text \<open>
  C10. For a user whose \<open>settings\<close> is null, \<open>verifyOtp\<close> goes on to the OTP lookup, and
  its outcome is the one the lookup and the expiry test give. \<open>User is already verified\<close> is
  answered only for a user with a settings object whose \<open>verified\<close> is true.
\<close>

theorem verifyOtp_null_settings_skips_guard:
  "(\<forall>user. findOne_email s e = Some user \<and> settings user = None \<longrightarrow>
      verifyOtp ev s e code =
        (case findOne_otp_user_code s (user_id user) code of
           None \<Rightarrow> (respond Error ''Invalid OTP'' Null, s)
         | Some otpRecord \<Rightarrow>
             if expires_at otpRecord < now ev then (respond Error ''OTP has expired'' Null, s)
             else (respond Success ''OTP verified successfully'' Null,
                   delete_otp (update_user s (user_id user) mark_verified) (otp_id otpRecord)))) \<and>
   (message (fst (verifyOtp ev s e code)) = ''User is already verified'' \<longrightarrow>
      (\<exists>user st. findOne_email s e = Some user \<and> settings user = Some st \<and>
         verified st = Some True))"
proof -
  have "\<exists>user st. findOne_email s e = Some user \<and> settings user = Some st \<and> verified st = Some True"
    if "message (fst (verifyOtp ev s e code)) = ''User is already verified''"
    using that
    by (auto simp: verifyOtp_def settings_verified_def Let_def split: option.splits if_splits)
  then show ?thesis
    by (auto simp: verifyOtp_def settings_verified_def Let_def split: option.splits)
qed

theorem verifyOtp_null_settings_skips_guard_witness:
  "findOne_email store_bob_otp ''b@x.com'' = Some bob \<and> settings bob = None \<and>
   verifyOtp env1 store_bob_otp ''b@x.com'' ''1234'' =
     (respond Success ''OTP verified successfully'' Null,
      \<lparr>users = [alice, bob\<lparr>settings := Some verified_only\<rparr>], otps = []\<rparr>) \<and>
   message (fst (verifyOtp env1 store_verified ''a@x.com'' ''1234'')) = ''User is already verified'' \<and>
   (\<exists>user st. findOne_email store_verified ''a@x.com'' = Some user \<and> settings user = Some st \<and>
      verified st = Some True)"
proof -
  have h: "findOne_email store_bob_otp ''b@x.com'' = Some bob \<and> settings bob = None"
    by (simp add: findOne_email_def store_bob_otp_def alice_def bob_def)
  have f: "findOne_otp_user_code store_bob_otp (user_id bob) ''1234'' =
      Some \<lparr>otp_id = 7, userId = ''u2'', otp = ''1234'', expires_at = 305000\<rparr>"
    by (simp add: findOne_otp_user_code_def store_bob_otp_def bob_def)
  have u: "delete_otp (update_user store_bob_otp (user_id bob) mark_verified) 7
      = \<lparr>users = [alice, bob\<lparr>settings := Some verified_only\<rparr>], otps = []\<rparr>"
    by (simp add: delete_otp_def update_user_def store_bob_otp_def bob_def alice_def
        mark_verified_def set_verified_def)
  have m: "message (fst (verifyOtp env1 store_verified ''a@x.com'' ''1234'')) = ''User is already verified''"
    by (simp add: verifyOtp_def store_verified_def findOne_email_def alice_def)
  from verifyOtp_null_settings_skips_guard [of store_bob_otp "''b@x.com''" env1 "''1234''"] h
  have 1: "verifyOtp env1 store_bob_otp ''b@x.com'' ''1234'' =
     (respond Success ''OTP verified successfully'' Null,
      \<lparr>users = [alice, bob\<lparr>settings := Some verified_only\<rparr>], otps = []\<rparr>)"
    by (simp add: f u env1_def env0_def)
  from verifyOtp_null_settings_skips_guard [of store_verified "''a@x.com''" env1 "''1234''"] m
  have 2: "\<exists>user st. findOne_email store_verified ''a@x.com'' = Some user \<and> settings user = Some st \<and>
      verified st = Some True"
    by blast
  from h 1 m 2 show ?thesis by blast
qed

text \<open>
  C6. A successful \<open>verifyOtp\<close> deletes the rows of the OTP table that have the id of the
  record consumed and leaves the other rows. Of the users it leaves every row with another
  id as it was; in a row with the id of the user found it changes the \<open>settings\<close> field
  only: \<open>verified\<close> is true there afterwards, and where the row had settings, every other
  field of the settings is as before.
\<close>

theorem verifyOtp_frame:
  assumes "result (fst (verifyOtp ev s e code)) = Success"
  shows "\<exists>user r. findOne_email s e = Some user \<and>
           findOne_otp_user_code s (user_id user) code = Some r \<and>
           otps (snd (verifyOtp ev s e code)) = filter (\<lambda>x. otp_id x \<noteq> otp_id r) (otps s) \<and>
           list_all2
             (\<lambda>u u'. if user_id u = user_id user
                      then (\<exists>st'. u' = u\<lparr>settings := Some st'\<rparr> \<and> verified st' = Some True \<and>
                              (\<forall>st. settings u = Some st \<longrightarrow> st' = st\<lparr>verified := Some True\<rparr>))
                      else u' = u)
             (users s) (users (snd (verifyOtp ev s e code)))"
proof -
  from assms obtain user and r :: VerificationOtp where u: "findOne_email s e = Some user"
    "findOne_otp_user_code s (user_id user) code = Some r"
    and s': "snd (verifyOtp ev s e code) =
       delete_otp (update_user s (user_id user) mark_verified) (otp_id r)"
    by (rule verifyOtp_success) blast
  have o: "otps (snd (verifyOtp ev s e code)) = filter (\<lambda>x. otp_id x \<noteq> otp_id r) (otps s)"
    by (simp add: s' delete_otp_def)
  have m: "\<exists>st'. mark_verified v = v\<lparr>settings := Some st'\<rparr> \<and> verified st' = Some True \<and>
             (\<forall>st. settings v = Some st \<longrightarrow> st' = st\<lparr>verified := Some True\<rparr>)" for v
  proof (cases "settings v")
    case None
    then have "mark_verified v = v\<lparr>settings := Some verified_only\<rparr>"
      by (simp add: mark_verified_def set_verified_def)
    moreover have "verified verified_only = Some True"
      by (simp add: verified_only_def)
    ultimately show ?thesis using None by auto
  next
    case (Some st)
    then have "mark_verified v = v\<lparr>settings := Some (st\<lparr>verified := Some True\<rparr>)\<rparr>"
      by (simp add: mark_verified_def set_verified_def)
    with Some show ?thesis by auto
  qed
  have "users (snd (verifyOtp ev s e code)) =
      map (\<lambda>v. if user_id v = user_id user then mark_verified v else v) (users s)"
    by (simp add: s' delete_otp_def update_user_def)
  then have l: "list_all2
             (\<lambda>u u'. if user_id u = user_id user
                      then (\<exists>st'. u' = u\<lparr>settings := Some st'\<rparr> \<and> verified st' = Some True \<and>
                              (\<forall>st. settings u = Some st \<longrightarrow> st' = st\<lparr>verified := Some True\<rparr>))
                      else u' = u)
             (users s) (users (snd (verifyOtp ev s e code)))"
    using m by (simp add: list_all2_map2 list_all2_same)
  from u o l show ?thesis by blast
qed

theorem verifyOtp_frame_witness:
  "result (fst (verifyOtp env1 store_otp ''a@x.com'' ''4711'')) = Success \<and>
   snd (verifyOtp env1 store_otp ''a@x.com'' ''4711'') =
     \<lparr>users = [alice\<lparr>settings :=
         Some \<lparr>verified = Some True, notificationsEmail = Some True, notificationsSms = Some False,
               securityTwoFactorAuth = Some False, language = Some ''en''\<rparr>\<rparr>, bob],
      otps = []\<rparr> \<and>
   (\<exists>user r. findOne_email store_otp ''a@x.com'' = Some user \<and>
      findOne_otp_user_code store_otp (user_id user) ''4711'' = Some r \<and>
      otps (snd (verifyOtp env1 store_otp ''a@x.com'' ''4711'')) =
        filter (\<lambda>x. otp_id x \<noteq> otp_id r) (otps store_otp))"
proof -
  have h: "result (fst (verifyOtp env1 store_otp ''a@x.com'' ''4711'')) = Success"
    by (simp add: verifyOtp_store_otp)
  have v: "snd (verifyOtp env1 store_otp ''a@x.com'' ''4711'') =
     \<lparr>users = [alice\<lparr>settings :=
         Some \<lparr>verified = Some True, notificationsEmail = Some True, notificationsSms = Some False,
               securityTwoFactorAuth = Some False, language = Some ''en''\<rparr>\<rparr>, bob],
      otps = []\<rparr>"
    by (simp add: verifyOtp_store_otp) (simp add: mark_verified_def set_verified_def alice_def)
  from verifyOtp_frame [OF h] h v show ?thesis by blast
qed

section \<open>Reset tokens\<close>

lemma verifyResetToken_success:
  assumes "result (fst (verifyResetToken ev s tok)) = Success"
  shows "\<exists>user. findOne_email s (jwt_email tok) = Some user \<and> resetPasswordToken user = Some tok"
proof -
  from assms obtain em where em: "jwt_verify tok secret (now ev) = Inr em"
    by (cases "jwt_verify tok secret (now ev)") (auto simp: verifyResetToken_def)
  then have e: "em = jwt_email tok"
    by (auto simp: jwt_verify_def split: token.splits if_splits)
  from assms em show ?thesis
    unfolding e by (auto simp: verifyResetToken_def split: option.splits if_splits)
qed

lemma generateResetToken_success:
  assumes "result (fst (generateResetToken ev s e)) = Success"
  shows "\<exists>user. findOne_email s e = Some user \<and>
           findOne_email (snd (generateResetToken ev s e)) e =
             Some (user\<lparr>resetPasswordToken := Some (signAsync e secret (now ev))\<rparr>)"
proof -
  from assms obtain user where u: "findOne_email s e = Some user"
    by (cases "findOne_email s e") (auto simp: generateResetToken_def)
  then show ?thesis
    by (simp add: generateResetToken_def Let_def findOne_email_update_user
        split: mail_outcome.splits)
qed

text \<open>
  C3 (as the code has it). After a second \<open>generateResetToken\<close> for the same email has
  succeeded, the user found by that email holds the second token. The two tokens are the
  same string exactly when they were issued in the same clock second. When they differ,
  \<open>verifyResetToken\<close> of the first token fails, and as long as the first token has not
  expired the failure is \<open>Invalid token\<close> with data \<open>{valid: false}\<close>; when they are the same
  string, it is the stored token and verifies until it expires. In no store do two
  different tokens with the same email both verify.
\<close>

theorem second_reset_token_revokes_first:
  assumes "result (fst (generateResetToken ev2 (snd (generateResetToken ev1 s e)) e)) = Success"
  shows "(\<exists>user. findOne_email (snd (generateResetToken ev2 (snd (generateResetToken ev1 s e)) e)) e
                   = Some user \<and>
                 resetPasswordToken user = Some (signAsync e secret (now ev2))) \<and>
         ((signAsync e secret (now ev1) = signAsync e secret (now ev2)) =
            (now ev1 div 1000 = now ev2 div 1000)) \<and>
         (signAsync e secret (now ev1) \<noteq> signAsync e secret (now ev2) \<longrightarrow>
            result (fst (verifyResetToken ev3 (snd (generateResetToken ev2 (snd (generateResetToken ev1 s e)) e))
                        (signAsync e secret (now ev1)))) = Error \<and>
            (now ev3 div 1000 < jwt_exp (signAsync e secret (now ev1)) \<longrightarrow>
               fst (verifyResetToken ev3 (snd (generateResetToken ev2 (snd (generateResetToken ev1 s e)) e))
                      (signAsync e secret (now ev1)))
                 = respond Error ''Invalid token'' (Valid False))) \<and>
         (signAsync e secret (now ev1) = signAsync e secret (now ev2) \<and>
          now ev3 div 1000 < jwt_exp (signAsync e secret (now ev1)) \<longrightarrow>
            fst (verifyResetToken ev3 (snd (generateResetToken ev2 (snd (generateResetToken ev1 s e)) e))
                   (signAsync e secret (now ev1)))
              = respond Success ''Token verified successfully'' (Valid True)) \<and>
         (\<forall>ev' s' t t'. result (fst (verifyResetToken ev' s' t)) = Success \<and>
                        result (fst (verifyResetToken ev' s' t')) = Success \<and>
                        jwt_email t = jwt_email t' \<longrightarrow> t = t')"
proof -
  let ?s2 = "snd (generateResetToken ev2 (snd (generateResetToken ev1 s e)) e)"
  let ?t1 = "signAsync e secret (now ev1)"
  let ?t2 = "signAsync e secret (now ev2)"
  from generateResetToken_success [OF assms] obtain user where
    u: "findOne_email ?s2 e = Some (user\<lparr>resetPasswordToken := Some ?t2\<rparr>)"
    by blast
  then have 1: "\<exists>user. findOne_email ?s2 e = Some user \<and> resetPasswordToken user = Some ?t2"
    by simp
  have 5: "(?t1 = ?t2) = (now ev1 div 1000 = now ev2 div 1000)"
    by (auto simp: signAsync_def)
  have 3: "fst (verifyResetToken ev3 ?s2 ?t1) = respond Error ''Invalid token'' (Valid False)"
    if "?t1 \<noteq> ?t2" "now ev3 div 1000 < jwt_exp ?t1"
    using that u
    by (simp add: verifyResetToken_def [of ev3 ?s2] jwt_verify_def signAsync_def)
  have 2: "result (fst (verifyResetToken ev3 ?s2 ?t1)) = Error" if d: "?t1 \<noteq> ?t2"
  proof (cases "now ev3 div 1000 < jwt_exp ?t1")
    case True
    with d show ?thesis by (simp add: 3)
  next
    case False
    then show ?thesis
      by (simp add: verifyResetToken_def [of ev3 ?s2] jwt_verify_def signAsync_def)
  qed
  have 6: "fst (verifyResetToken ev3 ?s2 ?t1) = respond Success ''Token verified successfully'' (Valid True)"
    if "?t1 = ?t2 \<and> now ev3 div 1000 < jwt_exp ?t1"
  proof -
    from that have j: "jwt_verify ?t1 secret (now ev3) = Inr e"
      by (simp add: jwt_verify_def signAsync_def)
    from that u have "findOne_email ?s2 e = Some (user\<lparr>resetPasswordToken := Some ?t1\<rparr>)"
      by simp
    with j show ?thesis
      by (simp add: verifyResetToken_def [of ev3 ?s2])
  qed
  have 4: "t = t'"
    if "result (fst (verifyResetToken ev' s' t)) = Success"
      "result (fst (verifyResetToken ev' s' t')) = Success" "jwt_email t = jwt_email t'"
    for ev' s' t t'
    using verifyResetToken_success [OF that(1)] verifyResetToken_success [OF that(2)] that(3)
    by auto
  from 1 2 3 4 5 6 show ?thesis by blast
qed

theorem second_reset_token_revokes_first_witness:
  "result (fst (generateResetToken env1 (snd (generateResetToken env0 store0 ''a@x.com'')) ''a@x.com''))
     = Success \<and>
   signAsync ''a@x.com'' secret (now env0) \<noteq> signAsync ''a@x.com'' secret (now env1) \<and>
   now env1 div 1000 < jwt_exp (signAsync ''a@x.com'' secret (now env0)) \<and>
   fst (verifyResetToken env1
          (snd (generateResetToken env1 (snd (generateResetToken env0 store0 ''a@x.com'')) ''a@x.com''))
          (signAsync ''a@x.com'' secret (now env0)))
     = respond Error ''Invalid token'' (Valid False) \<and>
   result (fst (verifyResetToken env1
          (snd (generateResetToken env1 (snd (generateResetToken env0 store0 ''a@x.com'')) ''a@x.com''))
          (signAsync ''a@x.com'' secret (now env1)))) = Success \<and>
   result (fst (generateResetToken env_same_second (snd (generateResetToken env0 store0 ''a@x.com''))
                  ''a@x.com'')) = Success \<and>
   signAsync ''a@x.com'' secret (now env0) = signAsync ''a@x.com'' secret (now env_same_second) \<and>
   now env_same_second div 1000 < jwt_exp (signAsync ''a@x.com'' secret (now env0)) \<and>
   fst (verifyResetToken env_same_second
          (snd (generateResetToken env_same_second (snd (generateResetToken env0 store0 ''a@x.com''))
                 ''a@x.com''))
          (signAsync ''a@x.com'' secret (now env0)))
     = respond Success ''Token verified successfully'' (Valid True)"
proof -
  have h: "result (fst (generateResetToken env1 (snd (generateResetToken env0 store0 ''a@x.com'')) ''a@x.com''))
     = Success"
    "result (fst (generateResetToken env_same_second (snd (generateResetToken env0 store0 ''a@x.com''))
                  ''a@x.com'')) = Success"
    by (simp_all add: generateResetToken_def example_defs env1_def env_same_second_def
        findOne_email_def update_user_def Let_def)
  have d: "signAsync ''a@x.com'' secret (now env0) \<noteq> signAsync ''a@x.com'' secret (now env1)"
    "signAsync ''a@x.com'' secret (now env0) = signAsync ''a@x.com'' secret (now env_same_second)"
    by (simp_all add: signAsync_def env0_def env1_def env_same_second_def)
  have t: "now env1 div 1000 < jwt_exp (signAsync ''a@x.com'' secret (now env0))"
    "now env_same_second div 1000 < jwt_exp (signAsync ''a@x.com'' secret (now env0))"
    by (simp_all add: signAsync_def env0_def env1_def env_same_second_def reset_ttl_def)
  have v: "result (fst (verifyResetToken env1
          (snd (generateResetToken env1 (snd (generateResetToken env0 store0 ''a@x.com'')) ''a@x.com''))
          (signAsync ''a@x.com'' secret (now env1)))) = Success"
    by (simp add: verifyResetToken_def generateResetToken_def example_defs env1_def findOne_email_def
        update_user_def Let_def jwt_verify_def signAsync_def reset_ttl_def)
  from second_reset_token_revokes_first [OF h(1), of env1]
    second_reset_token_revokes_first [OF h(2), of env_same_second] h d t v
  show ?thesis by blast
qed

text \<open>
  C3 as stated fails: two issuances in one clock second give the same token, and
  \<open>verifyResetToken\<close> of the first token succeeds after the second issuance.
\<close>

theorem same_second_reset_tokens_counterexample:
  "result (fst (generateResetToken env0 store0 ''a@x.com'')) = Success \<and>
   result (fst (generateResetToken env_same_second (snd (generateResetToken env0 store0 ''a@x.com''))
                  ''a@x.com'')) = Success \<and>
   fst (verifyResetToken env_same_second
          (snd (generateResetToken env_same_second (snd (generateResetToken env0 store0 ''a@x.com''))
                 ''a@x.com''))
          (signAsync ''a@x.com'' secret (now env0)))
     = respond Success ''Token verified successfully'' (Valid True)"
  by (simp add: verifyResetToken_def generateResetToken_def example_defs env_same_second_def
      findOne_email_def update_user_def Let_def jwt_verify_def signAsync_def reset_ttl_def)

lemma updatePassword_success:
  assumes "result (fst (updatePassword ev s tok pw)) = Success"
  obtains user where "jwt_verify tok secret (now ev) = Inr (email user)"
    "findOne_email s (email user) = Some user"
    "resetPasswordToken user = Some tok" "mail ev = Resolved"
    "snd (updatePassword ev s tok pw) =
       update_user s (user_id user) (\<lambda>u. u\<lparr>password := bcrypt_hash ev pw 10\<rparr>)"
proof -
  from assms obtain e where e: "jwt_verify tok secret (now ev) = Inr e"
    by (cases "jwt_verify tok secret (now ev)") (auto simp: updatePassword_def)
  from assms e obtain user where u: "findOne_email s e = Some user"
    by (cases "findOne_email s e") (auto simp: updatePassword_def)
  have "email user = e" using u by (rule findOne_email_email)
  with assms e u that show thesis
    by (auto simp: updatePassword_def Let_def split: if_splits mail_outcome.splits)
qed

text \<open>
  C1 (as the code has it). A successful \<open>updatePassword\<close> stores the bcrypt hash of the new
  password in the user found by the token's email and changes nothing else of that user:
  \<open>resetPasswordToken\<close> still holds the consumed token. So a later \<open>updatePassword\<close> with the
  same token succeeds again whenever the signer still accepts the token and the
  confirmation mail is sent.
\<close>

theorem updatePassword_keeps_resetPasswordToken:
  assumes "result (fst (updatePassword ev s tok pw)) = Success"
  shows "\<exists>user. findOne_email s (jwt_email tok) = Some user \<and>
           findOne_email (snd (updatePassword ev s tok pw)) (jwt_email tok)
             = Some (user\<lparr>password := bcrypt_hash ev pw 10\<rparr>) \<and>
           resetPasswordToken user = Some tok \<and>
           (\<forall>ev' pw'. jwt_verify tok secret (now ev') = Inr (jwt_email tok) \<and> mail ev' = Resolved \<longrightarrow>
              result (fst (updatePassword ev' (snd (updatePassword ev s tok pw)) tok pw')) = Success)"
proof -
  from assms obtain user where u: "jwt_verify tok secret (now ev) = Inr (email user)"
    "findOne_email s (email user) = Some user"
    "resetPasswordToken user = Some tok" "mail ev = Resolved"
    "snd (updatePassword ev s tok pw) =
       update_user s (user_id user) (\<lambda>u. u\<lparr>password := bcrypt_hash ev pw 10\<rparr>)"
    by (rule updatePassword_success)
  have e: "jwt_email tok = email user"
    using u(1) by (auto simp: jwt_verify_def split: token.splits if_splits)
  let ?s' = "snd (updatePassword ev s tok pw)"
  have f: "findOne_email ?s' (email user) = Some (user\<lparr>password := bcrypt_hash ev pw 10\<rparr>)"
    unfolding u(5) by (simp add: findOne_email_update_user u(2))
  have "result (fst (updatePassword ev' ?s' tok pw')) = Success"
    if "jwt_verify tok secret (now ev') = Inr (jwt_email tok)" "mail ev' = Resolved" for ev' pw'
    using that f u(3) by (simp add: updatePassword_def e Let_def)
  with f u e show ?thesis by auto
qed

theorem updatePassword_keeps_resetPasswordToken_witness:
  "result (fst (updatePassword env0 store_reset token0 ''new'')) = Success \<and>
   jwt_verify token0 secret (now env0) = Inr (jwt_email token0) \<and> mail env0 = Resolved \<and>
   result (fst (updatePassword env0 (snd (updatePassword env0 store_reset token0 ''new''))
                  token0 ''newer'')) = Success"
proof -
  have h: "result (fst (updatePassword env0 store_reset token0 ''new'')) = Success"
    by (simp add: updatePassword_def example_defs signAsync_def jwt_verify_def secret_def
        reset_ttl_def findOne_email_def update_user_def Let_def)
  have v: "jwt_verify token0 secret (now env0) = Inr (jwt_email token0) \<and> mail env0 = Resolved"
    by (simp add: example_defs signAsync_def jwt_verify_def secret_def reset_ttl_def)
  from updatePassword_keeps_resetPasswordToken [OF h] h v show ?thesis by blast
qed

text \<open>
  C1 as stated fails: after a successful \<open>updatePassword\<close> the stored pointer is not null
  and a second call with the same token succeeds.
\<close>

theorem updatePassword_clears_token_counterexample:
  "result (fst (updatePassword env0 store_reset token0 ''new'')) = Success \<and>
   map resetPasswordToken (users (snd (updatePassword env0 store_reset token0 ''new'')))
     = [Some token0] \<and>
   result (fst (updatePassword env0 (snd (updatePassword env0 store_reset token0 ''new''))
                  token0 ''new'')) = Success"
  by (simp add: updatePassword_def example_defs signAsync_def jwt_verify_def secret_def
      reset_ttl_def findOne_email_def update_user_def Let_def)

section \<open>Presence\<close>

lemma toggleUserStatus_with_settings:
  assumes "findOne_id s i = Some user" "settings user = Some st"
  shows "toggleUserStatus s i =
    (if status user = Offline then
       (if verified st = Some True
        then (Inr (respond Success ''User status updated to online.'' (UserData (user\<lparr>status := Online\<rparr>))),
              save_user s (user\<lparr>status := Online\<rparr>))
        else (Inl (HttpException ''Email must be verified to come online.'' 400), s))
     else (Inr (respond Success ''User status updated to offline.'' (UserData (user\<lparr>status := Offline\<rparr>))),
           save_user s (user\<lparr>status := Offline\<rparr>)))"
  using assms
  by (simp add: toggleUserStatus_def checkOnlineConditions_def conditions_def Let_def)

lemma findOne_id_save_user:
  assumes "findOne_id s i = Some user" "user_id u' = i"
  shows "findOne_id (save_user s u') i = Some u'"
proof -
  have "find (\<lambda>v. user_id v = i) (map (\<lambda>v. if user_id v = i then u' else v) xs) = Some u'"
    if "find (\<lambda>v. user_id v = i) xs = Some user" for xs
    using that assms(2) by (induction xs) (auto split: if_splits)
  with assms show ?thesis
    by (simp add: findOne_id_def save_user_def)
qed

text \<open>
  C8, evaluated where it fails. An offline user whose \<open>settings\<close> is null is not verified,
  yet \<open>toggleUserStatus\<close> does not fail with the precondition error
  \<open>Email must be verified to come online.\<close>: reading \<open>user.settings.verified\<close> throws a
  \<open>TypeError\<close>. The store is unchanged.
\<close>

theorem toggleUserStatus_null_settings:
  "findOne_id store0 ''u2'' = Some bob \<and> status bob = Offline \<and> settings bob = None \<and>
   toggleUserStatus store0 ''u2'' =
     (Inl (TypeError ''Cannot read properties of null (reading 'verified')''), store0)"
  by (simp add: toggleUserStatus_def checkOnlineConditions_def conditions_def findOne_id_def
      store0_def alice_def bob_def)

end
